theory Spec2Isabelle
  imports Main "HOL-Library.Sublist"
begin

section \<open>The RAG service of app.py: two request handlers over external collaborators\<close>

text \<open>
  The module holds two handlers, \<open>query\<close> and \<open>add_knowledge\<close>. Each one sequences calls
  into clients that live outside the repository: the Chroma collection (\<open>collection.query\<close>,
  \<open>collection.add\<close>), the Ollama client (\<open>ollama_client.generate\<close>) and the standard
  library's \<open>uuid.uuid4\<close>. The handlers are embedded as functions that thread a world
  through these calls; what each collaborator answers is a parameter of the model.
\<close>

subsection \<open>Faults\<close>

text \<open>
  A raised Python exception. \<open>add_knowledge\<close> guards its body with
  \<open>except Exception as e\<close> and reports \<open>str(e)\<close>, so the model keeps the two things the
  handler can observe of a fault: whether it is an instance of \<open>Exception\<close> (the classes
  that derive from \<open>BaseException\<close> only, such as \<open>KeyboardInterrupt\<close> and \<open>SystemExit\<close>,
  are not) and its description string. The class name is kept for readability.
\<close>

datatype fault = Raised (class_name: string) (is_Exception: bool) (str_e: string)

definition IndexError :: fault where
  "IndexError = Raised ''IndexError'' True ''list index out of range''"

text \<open>
  A fault that is not an instance of \<open>Exception\<close>: the exception by which a native
  extension module reports a panic (a subclass of \<open>BaseException\<close>).
\<close>

definition PanicException :: fault where
  "PanicException = Raised ''PanicException'' False ''index out of bounds''"

subsection \<open>Values exchanged with the collaborators\<close>

text \<open>
  \<open>collection.query\<close> answers with a dictionary of which the handler reads the entry
  \<open>"documents"\<close>: either \<open>None\<close> or one list of document texts per query text. The
  generation client answers with an object of which the handler reads \<open>"response"\<close>.
  Both entries are taken to be present in every answer, as the clients' result types
  declare them, so the two subscripts by key do not raise.
\<close>

record query_result =
  documents :: "string list list option"

record generate_response =
  response :: string

text \<open>A JSON object returned by a handler, as the ordered key/value pairs of the dict literal.\<close>

type_synonym envelope = "(string \<times> string) list"

subsection \<open>The world: collaborator state and the observable effects\<close>

text \<open>
  Every effect of a handler is recorded, in program order, as one event: a line printed to
  standard output or a call into a collaborator together with its arguments. The line
  printed for the raw retrieval result carries the result itself, its \<open>repr\<close> is not
  modelled. Writing a line to standard output is taken not to raise.
\<close>

datatype event =
    Print string
  | Print_results query_result
  | Collection_query "string list" nat
  | Collection_add "string list" "string list"
  | Ollama_generate string string
  | Uuid4

text \<open>
  The collaborators over a state \<open>'s\<close> of their own (the persistent collection, the model
  server, the random source). Each call either raises (\<open>Inl\<close>) or returns (\<open>Inr\<close>), and
  leaves a new state. \<open>uuid4_str\<close> stands for the step \<open>str(uuid.uuid4())\<close>, preceded by
  the \<open>import uuid\<close> of the same block.
\<close>

record 's collaborators =
  collection_query :: "string list \<Rightarrow> nat \<Rightarrow> 's \<Rightarrow> (fault + query_result) \<times> 's"
  collection_add :: "string list \<Rightarrow> string list \<Rightarrow> 's \<Rightarrow> (fault + unit) \<times> 's"
  ollama_generate :: "string \<Rightarrow> string \<Rightarrow> 's \<Rightarrow> (fault + generate_response) \<times> 's"
  uuid4_str :: "'s \<Rightarrow> (fault + string) \<times> 's"

record 's world =
  ext :: 's
  trace :: "event list"

definition emit :: "event \<Rightarrow> 's world \<Rightarrow> 's world" where
  "emit e w = w\<lparr>trace := trace w @ [e]\<rparr>"

definition call_collection_query ::
  "'s collaborators \<Rightarrow> string list \<Rightarrow> nat \<Rightarrow> 's world \<Rightarrow> (fault + query_result) \<times> 's world" where
  "call_collection_query c query_texts n_results w =
     (case collection_query c query_texts n_results (ext w) of
        (r, s) \<Rightarrow> (r, (emit (Collection_query query_texts n_results) w)\<lparr>ext := s\<rparr>))"

definition call_collection_add ::
  "'s collaborators \<Rightarrow> string list \<Rightarrow> string list \<Rightarrow> 's world \<Rightarrow> (fault + unit) \<times> 's world" where
  "call_collection_add c docs ids w =
     (case collection_add c docs ids (ext w) of
        (r, s) \<Rightarrow> (r, (emit (Collection_add docs ids) w)\<lparr>ext := s\<rparr>))"

definition call_ollama_generate ::
  "'s collaborators \<Rightarrow> string \<Rightarrow> string \<Rightarrow> 's world \<Rightarrow> (fault + generate_response) \<times> 's world" where
  "call_ollama_generate c model prompt w =
     (case ollama_generate c model prompt (ext w) of
        (r, s) \<Rightarrow> (r, (emit (Ollama_generate model prompt) w)\<lparr>ext := s\<rparr>))"

definition call_uuid4_str :: "'s collaborators \<Rightarrow> 's world \<Rightarrow> (fault + string) \<times> 's world" where
  "call_uuid4_str c w =
     (case uuid4_str c (ext w) of
        (r, s) \<Rightarrow> (r, (emit Uuid4 w)\<lparr>ext := s\<rparr>))"

subsection \<open>The query handler\<close>

text \<open>Python's \<open>xs[0]\<close>: the first element, \<open>IndexError\<close> on the empty list.\<close>

fun index0 :: "'a list \<Rightarrow> fault + 'a" where
  "index0 [] = Inl IndexError"
| "index0 (x # _) = Inr x"

text \<open>
  \<^verbatim>\<open>context = results["documents"][0][0] if results["documents"] else ""\<close>

  The condition is the truth value of \<open>results["documents"]\<close>: \<open>None\<close> and the empty
  list are false, every other list is true, whatever its elements are.
\<close>

definition context_of :: "query_result \<Rightarrow> fault + string" where
  "context_of results =
     (case documents results of
        None \<Rightarrow> Inr ''''
      | Some docs \<Rightarrow>
          if docs \<noteq> [] then
            (case index0 docs of
               Inl e \<Rightarrow> Inl e
             | Inr first \<Rightarrow> index0 first)
          else Inr '''')"

text \<open>
  \<^verbatim>\<open>f"Context:\n{context}\n\nQuestion: {q}\n\nAnswer clearly and concisely:using only the context in the context"\<close>
\<close>

definition prompt_of :: "string \<Rightarrow> string \<Rightarrow> string" where
  "prompt_of context q =
     ''Context:\<newline>'' @ context @ ''\<newline>\<newline>Question: '' @ q @
     ''\<newline>\<newline>Answer clearly and concisely:using only the context in the context''"

definition query :: "'s collaborators \<Rightarrow> string \<Rightarrow> 's world \<Rightarrow> (fault + envelope) \<times> 's world" where
  "query c q w0 =
     (let w1 = emit (Print (''Received query: '' @ q)) w0 in
      case call_collection_query c [q] 1 w1 of
        (Inl e, w2) \<Rightarrow> (Inl e, w2)
      | (Inr results, w2) \<Rightarrow>
          (let w3 = emit (Print_results results) w2 in
           case context_of results of
             Inl e \<Rightarrow> (Inl e, w3)
           | Inr context \<Rightarrow>
               (let w4 = emit (Print (''Context passed to Ollama: '' @ context)) w3 in
                case call_ollama_generate c ''tinyllama'' (prompt_of context q) w4 of
                  (Inl e, w5) \<Rightarrow> (Inl e, w5)
                | (Inr answer, w5) \<Rightarrow> (Inr [(''answer'', response answer)], w5))))"

subsection \<open>The add handler\<close>

text \<open>
  The \<open>except Exception as e\<close> clause: a fault that is an instance of \<open>Exception\<close> becomes
  the error envelope, any other fault leaves the handler.
\<close>

definition except_Exception :: "fault \<Rightarrow> 's world \<Rightarrow> (fault + envelope) \<times> 's world" where
  "except_Exception e w =
     (if is_Exception e
      then (Inr [(''status'', ''error''), (''message'', str_e e)], w)
      else (Inl e, w))"

definition add_knowledge :: "'s collaborators \<Rightarrow> string \<Rightarrow> 's world \<Rightarrow> (fault + envelope) \<times> 's world" where
  "add_knowledge c text w0 =
     (case call_uuid4_str c w0 of
        (Inl e, w1) \<Rightarrow> except_Exception e w1
      | (Inr doc_id, w1) \<Rightarrow>
          (case call_collection_add c [text] [doc_id] w1 of
             (Inl e, w2) \<Rightarrow> except_Exception e w2
           | (Inr _, w2) \<Rightarrow>
               (Inr [(''status'', ''success''),
                     (''message'', ''Content added to knowledge base''),
                     (''id'', doc_id)], w2)))"


subsection \<open>Counting calls in a trace\<close>

fun is_generate :: "event \<Rightarrow> bool" where
  "is_generate (Ollama_generate _ _) = True"
| "is_generate _ = False"

fun is_add :: "event \<Rightarrow> bool" where
  "is_add (Collection_add _ _) = True"
| "is_add _ = False"

subsection \<open>A scripted stand-in for the collaborators\<close>

text \<open>
  To run the handlers on concrete inputs the collaborators are instantiated by a small
  in-memory stand-in. Its collection keeps the (id, text) pairs in insertion order,
  ignores an id it already holds, and answers a query with one list per query text holding
  the first \<open>n_results\<close> stored texts; its identifier source hands out a scripted sequence;
  each call can be scripted to raise.
\<close>

record stub =
  kb :: "(string \<times> string) list"
  uuids :: "(fault + string) list"
  completion :: string
  query_fault :: "fault option"
  add_fault :: "fault option"
  generate_fault :: "fault option"

definition stub_query :: "string list \<Rightarrow> nat \<Rightarrow> stub \<Rightarrow> (fault + query_result) \<times> stub" where
  "stub_query query_texts n_results s =
     (case query_fault s of
        Some f \<Rightarrow> (Inl f, s)
      | None \<Rightarrow>
          (Inr \<lparr>documents = Some (map (\<lambda>_. take n_results (map snd (kb s))) query_texts)\<rparr>, s))"

definition stub_add :: "string list \<Rightarrow> string list \<Rightarrow> stub \<Rightarrow> (fault + unit) \<times> stub" where
  "stub_add docs ids s =
     (case add_fault s of
        Some f \<Rightarrow> (Inl f, s)
      | None \<Rightarrow>
          (Inr (), s\<lparr>kb := kb s @ filter (\<lambda>(i, d). map_of (kb s) i = None) (zip ids docs)\<rparr>))"

definition stub_generate :: "string \<Rightarrow> string \<Rightarrow> stub \<Rightarrow> (fault + generate_response) \<times> stub" where
  "stub_generate model prompt s =
     (case generate_fault s of
        Some f \<Rightarrow> (Inl f, s)
      | None \<Rightarrow> (Inr \<lparr>response = completion s\<rparr>, s))"

definition stub_uuid4 :: "stub \<Rightarrow> (fault + string) \<times> stub" where
  "stub_uuid4 s =
     (case uuids s of
        [] \<Rightarrow> (Inl (Raised ''OSError'' True ''no entropy''), s)
      | r # rs \<Rightarrow> (r, s\<lparr>uuids := rs\<rparr>))"

definition stub_collaborators :: "stub collaborators" where
  "stub_collaborators =
     \<lparr>collection_query = stub_query, collection_add = stub_add,
      ollama_generate = stub_generate, uuid4_str = stub_uuid4\<rparr>"

definition stub0 :: stub where
  "stub0 = \<lparr>kb = [], uuids = [], completion = ''The sky is blue.'',
            query_fault = None, add_fault = None, generate_fault = None\<rparr>"

definition world0 :: "stub \<Rightarrow> stub world" where
  "world0 s = \<lparr>ext = s, trace = []\<rparr>"

section \<open>Properties of the handlers\<close>

subsection \<open>The three ways through the query handler\<close>

lemma query_when_retrieval_raises:
  assumes "collection_query c [q] 1 (ext w) = (Inl f, s)"
  shows "query c q w =
    (Inl f, w\<lparr>ext := s, trace := trace w @ [Print (''Received query: '' @ q), Collection_query [q] 1]\<rparr>)"
  using assms by (simp add: query_def call_collection_query_def emit_def)

lemma query_when_context_raises:
  assumes "collection_query c [q] 1 (ext w) = (Inr results, s)"
    and "context_of results = Inl f"
  shows "query c q w =
    (Inl f, w\<lparr>ext := s, trace := trace w @
       [Print (''Received query: '' @ q), Collection_query [q] 1, Print_results results]\<rparr>)"
  using assms by (simp add: query_def call_collection_query_def emit_def)

lemma query_when_context_found:
  assumes "collection_query c [q] 1 (ext w) = (Inr results, s)"
    and "context_of results = Inr context"
    and "ollama_generate c ''tinyllama'' (prompt_of context q) s = (a, s')"
  shows "query c q w =
    (case a of Inl e \<Rightarrow> Inl e | Inr answer \<Rightarrow> Inr [(''answer'', response answer)],
     w\<lparr>ext := s', trace := trace w @
       [Print (''Received query: '' @ q), Collection_query [q] 1, Print_results results,
        Print (''Context passed to Ollama: '' @ context),
        Ollama_generate ''tinyllama'' (prompt_of context q)]\<rparr>)"
  using assms
  by (cases a) (simp_all add: query_def call_collection_query_def call_ollama_generate_def emit_def)


lemma context_of_falsy:
  "documents results = None \<or> documents results = Some [] \<Longrightarrow> context_of results = Inr ''''"
  by (auto simp add: context_of_def)

lemma context_of_empty_inner:
  "documents results = Some ([] # dss) \<Longrightarrow> context_of results = Inl IndexError"
  by (simp add: context_of_def)

subsection \<open>The ways through the add handler\<close>

lemma add_knowledge_when_uuid_raises:
  assumes "uuid4_str c (ext w) = (Inl f, s)"
  shows "add_knowledge c text w =
    (if is_Exception f then Inr [(''status'', ''error''), (''message'', str_e f)] else Inl f,
     w\<lparr>ext := s, trace := trace w @ [Uuid4]\<rparr>)"
  using assms by (simp add: add_knowledge_def call_uuid4_str_def emit_def except_Exception_def)

lemma add_knowledge_when_add_raises:
  assumes "uuid4_str c (ext w) = (Inr doc_id, s)"
    and "collection_add c [text] [doc_id] s = (Inl f, s')"
  shows "add_knowledge c text w =
    (if is_Exception f then Inr [(''status'', ''error''), (''message'', str_e f)] else Inl f,
     w\<lparr>ext := s', trace := trace w @ [Uuid4, Collection_add [text] [doc_id]]\<rparr>)"
  using assms
  by (simp add: add_knowledge_def call_uuid4_str_def call_collection_add_def emit_def
      except_Exception_def)

lemma add_knowledge_when_add_returns:
  assumes "uuid4_str c (ext w) = (Inr doc_id, s)"
    and "collection_add c [text] [doc_id] s = (Inr u, s')"
  shows "add_knowledge c text w =
    (Inr [(''status'', ''success''), (''message'', ''Content added to knowledge base''),
          (''id'', doc_id)],
     w\<lparr>ext := s', trace := trace w @ [Uuid4, Collection_add [text] [doc_id]]\<rparr>)"
  using assms
  by (simp add: add_knowledge_def call_uuid4_str_def call_collection_add_def emit_def)

subsection \<open>Query: the prompt carries the first document and the question\<close>



subsection \<open>Add: the success envelope\<close>

text \<open>
  Claim C4. When the identifier step returns \<open>doc_id\<close> and the insertion returns, the
  handler has called the identifier source once and then \<open>collection.add\<close> once, with
  \<open>documents=[text]\<close> and \<open>ids=[doc_id]\<close>, and it returns the success envelope whose \<open>id\<close>
  entry is that same \<open>doc_id\<close>.
\<close>

theorem add_knowledge_success_envelope:
  assumes "uuid4_str c (ext w) = (Inr doc_id, s)"
    and "collection_add c [text] [doc_id] s = (Inr u, s')"
  shows "fst (add_knowledge c text w) =
           Inr [(''status'', ''success''), (''message'', ''Content added to knowledge base''),
                (''id'', doc_id)]
       \<and> trace (snd (add_knowledge c text w)) = trace w @ [Uuid4, Collection_add [text] [doc_id]]
       \<and> ext (snd (add_knowledge c text w)) = s'"
  by (simp add: add_knowledge_when_add_returns [OF assms])

theorem add_knowledge_success_envelope_witness:
  "uuid4_str stub_collaborators (ext (world0 (stub0\<lparr>uuids := [Inr ''id-1'']\<rparr>))) = (Inr ''id-1'', stub0)
   \<and> collection_add stub_collaborators [''The sky is blue.''] [''id-1''] stub0 =
       (Inr (), stub0\<lparr>kb := [(''id-1'', ''The sky is blue.'')]\<rparr>)
   \<and> fst (add_knowledge stub_collaborators ''The sky is blue.'' (world0 (stub0\<lparr>uuids := [Inr ''id-1'']\<rparr>))) =
       Inr [(''status'', ''success''), (''message'', ''Content added to knowledge base''),
            (''id'', ''id-1'')]
   \<and> trace (snd (add_knowledge stub_collaborators ''The sky is blue.''
        (world0 (stub0\<lparr>uuids := [Inr ''id-1'']\<rparr>)))) =
       [Uuid4, Collection_add [''The sky is blue.''] [''id-1'']]
   \<and> kb (ext (snd (add_knowledge stub_collaborators ''The sky is blue.''
        (world0 (stub0\<lparr>uuids := [Inr ''id-1'']\<rparr>))))) = [(''id-1'', ''The sky is blue.'')]"
proof -
  have h1: "uuid4_str stub_collaborators (ext (world0 (stub0\<lparr>uuids := [Inr ''id-1'']\<rparr>))) =
      (Inr ''id-1'', stub0)"
    by (simp add: stub_collaborators_def stub_uuid4_def stub0_def world0_def)
  have h2: "collection_add stub_collaborators [''The sky is blue.''] [''id-1''] stub0 =
      (Inr (), stub0\<lparr>kb := [(''id-1'', ''The sky is blue.'')]\<rparr>)"
    by (simp add: stub_collaborators_def stub_add_def stub0_def)
  show ?thesis
    using h1 h2 add_knowledge_success_envelope [OF h1 h2]
    by (simp add: world0_def)
qed

subsection \<open>Query: a retrieval result without documents\<close>

text \<open>
  When \<open>results["documents"]\<close> is \<open>None\<close> or the empty list, the conditional takes its
  \<open>else\<close> branch: the context is the empty string and the generation call is made with
  the template around it.
\<close>

lemma query_with_falsy_documents:
  assumes "collection_query c [q] 1 (ext w) = (Inr results, s)"
    and "documents results = None \<or> documents results = Some []"
  shows "context_of results = Inr ''''
       \<and> filter is_generate (trace (snd (query c q w))) =
           filter is_generate (trace w) @ [Ollama_generate ''tinyllama'' (prompt_of '''' q)]"
proof -
  obtain a s' where gen: "ollama_generate c ''tinyllama'' (prompt_of '''' q) s = (a, s')"
    by (cases "ollama_generate c ''tinyllama'' (prompt_of '''' q) s")
  have ctx: "context_of results = Inr ''''"
    using assms(2) by (rule context_of_falsy)
  show ?thesis
    by (simp add: ctx query_when_context_found [OF assms(1) ctx gen])
qed

text \<open>
  A collection that finds nothing for the one query text answers with one list per query
  text, and that list is empty: \<open>results["documents"]\<close> is \<open>[[]]\<close>. This outer list is not
  empty, so the condition holds, and \<open>results["documents"][0][0]\<close> indexes the empty inner
  list.
\<close>

lemma query_with_empty_inner_list:
  assumes "collection_query c [q] 1 (ext w) = (Inr results, s)"
    and "documents results = Some ([] # dss)"
  shows "query c q w =
    (Inl IndexError, w\<lparr>ext := s, trace := trace w @
       [Print (''Received query: '' @ q), Collection_query [q] 1, Print_results results]\<rparr>)"
  using assms(1) context_of_empty_inner [OF assms(2)] by (rule query_when_context_raises)

text \<open>
  Claim C1, evaluated on the empty collection. The claim asks for the empty context and a
  generation call; the handler raises \<open>IndexError\<close> after logging the retrieval result, and
  neither logs a context nor calls the generation client.
\<close>

theorem query_on_empty_collection_raises:
  "collection_query stub_collaborators [''What color is the sky?''] 1 (ext (world0 stub0)) =
     (Inr \<lparr>documents = Some [[]]\<rparr>, stub0)
   \<and> context_of \<lparr>documents = Some [[]]\<rparr> = Inl IndexError
   \<and> query stub_collaborators ''What color is the sky?'' (world0 stub0) =
     (Inl IndexError,
      \<lparr>ext = stub0,
       trace = [Print ''Received query: What color is the sky?'',
                Collection_query [''What color is the sky?''] 1,
                Print_results \<lparr>documents = Some [[]]\<rparr>]\<rparr>)"
proof -
  have h1: "collection_query stub_collaborators [''What color is the sky?''] 1 (ext (world0 stub0)) =
      (Inr \<lparr>documents = Some [[]]\<rparr>, stub0)"
    by (simp add: stub_collaborators_def stub_query_def stub0_def world0_def)
  have h2: "documents \<lparr>documents = Some [[]]\<rparr> = Some ([] # [])"
    by simp
  show ?thesis
    using h1 context_of_empty_inner [OF h2] query_with_empty_inner_list [OF h1 h2]
    by (simp add: world0_def)
qed

text \<open>
  Claim C9, evaluated on the empty collection: the retrieval result is empty and the trace
  of the handler holds no generation call; the handler ends with \<open>IndexError\<close>.
\<close>

theorem query_on_empty_collection_skips_generation:
  "filter is_generate (trace (snd (query stub_collaborators ''Who wrote Hamlet?'' (world0 stub0)))) = []
   \<and> fst (query stub_collaborators ''Who wrote Hamlet?'' (world0 stub0)) = Inl IndexError"
proof -
  have h1: "collection_query stub_collaborators [''Who wrote Hamlet?''] 1 (ext (world0 stub0)) =
      (Inr \<lparr>documents = Some [[]]\<rparr>, stub0)"
    by (simp add: stub_collaborators_def stub_query_def stub0_def world0_def)
  have h2: "documents \<lparr>documents = Some [[]]\<rparr> = Some ([] # [])"
    by simp
  show ?thesis
    using query_with_empty_inner_list [OF h1 h2] by (simp add: world0_def)
qed

subsection \<open>Query: faults of the collaborators leave the handler\<close>

text \<open>
  The query handler has no \<open>try\<close>. A fault raised by \<open>collection.query\<close> is the outcome
  of the handler, and so is a fault raised by \<open>ollama_client.generate\<close>; in both cases the
  handler stops at the failing call and hands the fault, with the world reached so far, to
  its caller. This is the first half of claim C7. Its second half, that no such fault
  ends the process, is a property of the server that calls the handler: what becomes of a
  fault after it has left the handler is not part of this module and is not stated here.
\<close>

theorem query_faults_propagate:
  "(collection_query c [q] 1 (ext w) = (Inl f, s) \<longrightarrow>
      query c q w =
        (Inl f, w\<lparr>ext := s, trace := trace w @
           [Print (''Received query: '' @ q), Collection_query [q] 1]\<rparr>))
   \<and> (collection_query c [q] 1 (ext w) = (Inr results, s) \<and>
      context_of results = Inr ctx \<and>
      ollama_generate c ''tinyllama'' (prompt_of ctx q) s = (Inl f, s') \<longrightarrow>
      query c q w =
        (Inl f, w\<lparr>ext := s', trace := trace w @
           [Print (''Received query: '' @ q), Collection_query [q] 1, Print_results results,
            Print (''Context passed to Ollama: '' @ ctx),
            Ollama_generate ''tinyllama'' (prompt_of ctx q)]\<rparr>))"
proof (intro conjI impI)
  assume "collection_query c [q] 1 (ext w) = (Inl f, s)"
  then show "query c q w =
      (Inl f, w\<lparr>ext := s, trace := trace w @
         [Print (''Received query: '' @ q), Collection_query [q] 1]\<rparr>)"
    by (rule query_when_retrieval_raises)
next
  assume h: "collection_query c [q] 1 (ext w) = (Inr results, s) \<and>
      context_of results = Inr ctx \<and>
      ollama_generate c ''tinyllama'' (prompt_of ctx q) s = (Inl f, s')"
  then have "collection_query c [q] 1 (ext w) = (Inr results, s)"
    and "context_of results = Inr ctx"
    and "ollama_generate c ''tinyllama'' (prompt_of ctx q) s = (Inl f, s')"
    by simp_all
  then show "query c q w =
      (Inl f, w\<lparr>ext := s', trace := trace w @
         [Print (''Received query: '' @ q), Collection_query [q] 1, Print_results results,
          Print (''Context passed to Ollama: '' @ ctx),
          Ollama_generate ''tinyllama'' (prompt_of ctx q)]\<rparr>)"
    by (simp add: query_when_context_found)
qed

theorem query_faults_propagate_witness:
  "collection_query stub_collaborators [''What color is the sky?''] 1
     (ext (world0 (stub0\<lparr>query_fault := Some (Raised ''ConnectionError'' True ''collection unreachable'')\<rparr>))) =
     (Inl (Raised ''ConnectionError'' True ''collection unreachable''),
      stub0\<lparr>query_fault := Some (Raised ''ConnectionError'' True ''collection unreachable'')\<rparr>)
   \<and> fst (query stub_collaborators ''What color is the sky?''
        (world0 (stub0\<lparr>query_fault := Some (Raised ''ConnectionError'' True ''collection unreachable'')\<rparr>))) =
     Inl (Raised ''ConnectionError'' True ''collection unreachable'')
   \<and> ollama_generate stub_collaborators ''tinyllama'' (prompt_of ''The sky is blue.'' ''What color is the sky?'')
       (stub0\<lparr>kb := [(''id-1'', ''The sky is blue.'')],
              generate_fault := Some (Raised ''ResponseError'' True ''model not found'')\<rparr>) =
     (Inl (Raised ''ResponseError'' True ''model not found''),
      stub0\<lparr>kb := [(''id-1'', ''The sky is blue.'')],
            generate_fault := Some (Raised ''ResponseError'' True ''model not found'')\<rparr>)
   \<and> fst (query stub_collaborators ''What color is the sky?''
        (world0 (stub0\<lparr>kb := [(''id-1'', ''The sky is blue.'')],
                       generate_fault := Some (Raised ''ResponseError'' True ''model not found'')\<rparr>))) =
     Inl (Raised ''ResponseError'' True ''model not found'')"
proof -
  let ?q = "''What color is the sky?''"
  let ?fa = "Raised ''ConnectionError'' True ''collection unreachable''"
  let ?sa = "stub0\<lparr>query_fault := Some ?fa\<rparr>"
  let ?fb = "Raised ''ResponseError'' True ''model not found''"
  let ?sb = "stub0\<lparr>kb := [(''id-1'', ''The sky is blue.'')], generate_fault := Some ?fb\<rparr>"
  let ?r = "\<lparr>documents = Some [[''The sky is blue.'']]\<rparr>"
  have a1: "collection_query stub_collaborators [?q] 1 (ext (world0 ?sa)) = (Inl ?fa, ?sa)"
    by (simp add: stub_collaborators_def stub_query_def stub0_def world0_def)
  have b1: "collection_query stub_collaborators [?q] 1 (ext (world0 ?sb)) = (Inr ?r, ?sb)"
    by (simp add: stub_collaborators_def stub_query_def stub0_def world0_def)
  have b2: "context_of ?r = Inr ''The sky is blue.''"
    by (simp add: context_of_def)
  have b3: "ollama_generate stub_collaborators ''tinyllama'' (prompt_of ''The sky is blue.'' ?q) ?sb =
      (Inl ?fb, ?sb)"
    by (simp add: stub_collaborators_def stub_generate_def stub0_def)
  note A = query_faults_propagate [where c = stub_collaborators and q = "?q" and w = "world0 ?sa"
      and f = "?fa" and s = "?sa", THEN conjunct1, rule_format, OF a1]
  note B = query_faults_propagate [where c = stub_collaborators and q = "?q" and w = "world0 ?sb"
      and f = "?fb" and s = "?sb" and s' = "?sb" and results = "?r"
      and ctx = "''The sky is blue.''",
      THEN conjunct2, rule_format, OF conjI [OF b1 conjI [OF b2 b3]]]
  show ?thesis
    using a1 b3 A B by simp
qed

subsection \<open>Query: nothing is written\<close>

text \<open>
  Claim C8. What a run of the query handler adds to the trace is an initial part of the
  sequence: the line with the question, the one call of \<open>collection.query\<close>, the line with
  the raw result, the line with the context, the one call of \<open>ollama_client.generate\<close>.
  No call of \<open>collection.add\<close> is among them (the module has no update or delete call at
  all). The collaborator state is touched through these two calls only: any part \<open>kbv\<close>
  of it that the similarity search and the generation service leave alone is the same
  after the handler as before.
\<close>

theorem query_only_reads_and_logs:
  "(\<exists>new results context.
      trace (snd (query c q w)) = trace w @ new \<and>
      prefix new
        [Print (''Received query: '' @ q), Collection_query [q] 1, Print_results results,
         Print (''Context passed to Ollama: '' @ context),
         Ollama_generate ''tinyllama'' (prompt_of context q)])
   \<and> filter is_add (trace (snd (query c q w))) = filter is_add (trace w)
   \<and> ((\<forall>texts n s. kbv (snd (collection_query c texts n s)) = kbv s) \<and>
      (\<forall>m p s. kbv (snd (ollama_generate c m p s)) = kbv s) \<longrightarrow>
      kbv (ext (snd (query c q w))) = kbv (ext w))"
proof -
  obtain r s where cq: "collection_query c [q] 1 (ext w) = (r, s)"
    by (cases "collection_query c [q] 1 (ext w)")
  then have s_eq: "s = snd (collection_query c [q] 1 (ext w))"
    by simp
  show ?thesis
  proof (cases r)
    case (Inl f)
    with cq have "collection_query c [q] 1 (ext w) = (Inl f, s)"
      by simp
    then have run: "query c q w =
        (Inl f, w\<lparr>ext := s, trace := trace w @
           [Print (''Received query: '' @ q), Collection_query [q] 1]\<rparr>)"
      by (rule query_when_retrieval_raises)
    show ?thesis
      unfolding run using s_eq by simp
  next
    case (Inr results)
    with cq have cq': "collection_query c [q] 1 (ext w) = (Inr results, s)"
      by simp
    show ?thesis
    proof (cases "context_of results")
      case (Inl f)
      have run: "query c q w =
          (Inl f, w\<lparr>ext := s, trace := trace w @
             [Print (''Received query: '' @ q), Collection_query [q] 1, Print_results results]\<rparr>)"
        using cq' Inl by (rule query_when_context_raises)
      have "prefix [Print (''Received query: '' @ q), Collection_query [q] 1, Print_results results]
          [Print (''Received query: '' @ q), Collection_query [q] 1, Print_results results,
           Print (''Context passed to Ollama: '' @ []),
           Ollama_generate ''tinyllama'' (prompt_of [] q)]"
        by simp
      then show ?thesis
        unfolding run using s_eq by auto
    next
      case (Inr ctx)
      obtain a s' where gen: "ollama_generate c ''tinyllama'' (prompt_of ctx q) s = (a, s')"
        by (cases "ollama_generate c ''tinyllama'' (prompt_of ctx q) s")
      then have s'_eq: "s' = snd (ollama_generate c ''tinyllama'' (prompt_of ctx q) s)"
        by simp
      have run: "query c q w =
          (case a of Inl e \<Rightarrow> Inl e | Inr answer \<Rightarrow> Inr [(''answer'', response answer)],
           w\<lparr>ext := s', trace := trace w @
             [Print (''Received query: '' @ q), Collection_query [q] 1, Print_results results,
              Print (''Context passed to Ollama: '' @ ctx),
              Ollama_generate ''tinyllama'' (prompt_of ctx q)]\<rparr>)"
        using cq' Inr gen by (rule query_when_context_found)
      show ?thesis
        unfolding run using s_eq s'_eq by auto
    qed
  qed
qed

theorem query_only_reads_and_logs_witness:
  "(\<forall>texts n s. kb (snd (collection_query stub_collaborators texts n s)) = kb s)
   \<and> (\<forall>m p s. kb (snd (ollama_generate stub_collaborators m p s)) = kb s)
   \<and> kb (ext (snd (query stub_collaborators ''What color is the sky?''
        (world0 (stub0\<lparr>kb := [(''id-1'', ''The sky is blue.'')]\<rparr>))))) =
       [(''id-1'', ''The sky is blue.'')]
   \<and> filter is_add (trace (snd (query stub_collaborators ''What color is the sky?''
        (world0 (stub0\<lparr>kb := [(''id-1'', ''The sky is blue.'')]\<rparr>))))) = []"
proof -
  have h1: "\<forall>texts n s. kb (snd (collection_query stub_collaborators texts n s)) = kb s"
    by (simp add: stub_collaborators_def stub_query_def split: option.split)
  have h2: "\<forall>m p s. kb (snd (ollama_generate stub_collaborators m p s)) = kb s"
    by (simp add: stub_collaborators_def stub_generate_def split: option.split)
  note frame = query_only_reads_and_logs [where c = stub_collaborators and kbv = kb
      and q = "''What color is the sky?''"
      and w = "world0 (stub0\<lparr>kb := [(''id-1'', ''The sky is blue.'')]\<rparr>)"]
  show ?thesis
    using h1 h2 frame by (simp add: world0_def)
qed

subsection \<open>Add: which faults become the error envelope\<close>

text \<open>
  Claim C3 as stated fails: the clause is \<open>except Exception\<close>, and a fault of the
  insertion step that is not an instance of \<open>Exception\<close> leaves the handler.
\<close>

theorem add_knowledge_insertion_panic_escapes:
  "collection_add stub_collaborators [''The sky is blue.''] [''id-1'']
     (stub0\<lparr>add_fault := Some PanicException\<rparr>) =
     (Inl PanicException, stub0\<lparr>add_fault := Some PanicException\<rparr>)
   \<and> fst (add_knowledge stub_collaborators ''The sky is blue.''
        (world0 (stub0\<lparr>uuids := [Inr ''id-1''], add_fault := Some PanicException\<rparr>))) =
     Inl PanicException"
proof -
  let ?s = "stub0\<lparr>uuids := [Inr ''id-1''], add_fault := Some PanicException\<rparr>"
  have h1: "uuid4_str stub_collaborators (ext (world0 ?s)) =
      (Inr ''id-1'', stub0\<lparr>add_fault := Some PanicException\<rparr>)"
    by (simp add: stub_collaborators_def stub_uuid4_def stub0_def world0_def)
  have h2: "collection_add stub_collaborators [''The sky is blue.''] [''id-1'']
      (stub0\<lparr>add_fault := Some PanicException\<rparr>) =
      (Inl PanicException, stub0\<lparr>add_fault := Some PanicException\<rparr>)"
    by (simp add: stub_collaborators_def stub_add_def stub0_def)
  show ?thesis
    using h2 add_knowledge_when_add_raises [OF h1 h2]
    by (simp add: PanicException_def)
qed

text \<open>
  Claim C3, amended. A fault raised by the identifier step or by the insertion step is
  turned into the envelope \<open>{"status": "error", "message": str(e)}\<close> when it is an
  instance of \<open>Exception\<close>, and then nothing is propagated; a fault that is not an
  instance of \<open>Exception\<close> is the outcome of the handler.
\<close>

theorem add_knowledge_catches_Exception:
  assumes "uuid4_str c (ext w) = (Inl f, s)
         \<or> (uuid4_str c (ext w) = (Inr doc_id, s0) \<and> collection_add c [text] [doc_id] s0 = (Inl f, s))"
  shows "fst (add_knowledge c text w) =
    (if is_Exception f then Inr [(''status'', ''error''), (''message'', str_e f)] else Inl f)"
  using assms
proof
  assume "uuid4_str c (ext w) = (Inl f, s)"
  then show ?thesis
    by (simp add: add_knowledge_when_uuid_raises)
next
  assume "uuid4_str c (ext w) = (Inr doc_id, s0) \<and> collection_add c [text] [doc_id] s0 = (Inl f, s)"
  then have "uuid4_str c (ext w) = (Inr doc_id, s0)"
    and "collection_add c [text] [doc_id] s0 = (Inl f, s)"
    by simp_all
  then show ?thesis
    by (simp add: add_knowledge_when_add_raises)
qed

theorem add_knowledge_catches_Exception_witness:
  "uuid4_str stub_collaborators
     (ext (world0 (stub0\<lparr>uuids := [Inr ''id-1''],
        add_fault := Some (Raised ''ValueError'' True ''Expected IDs to be unique'')\<rparr>))) =
     (Inr ''id-1'', stub0\<lparr>add_fault := Some (Raised ''ValueError'' True ''Expected IDs to be unique'')\<rparr>)
   \<and> collection_add stub_collaborators [''The sky is blue.''] [''id-1'']
       (stub0\<lparr>add_fault := Some (Raised ''ValueError'' True ''Expected IDs to be unique'')\<rparr>) =
     (Inl (Raised ''ValueError'' True ''Expected IDs to be unique''),
      stub0\<lparr>add_fault := Some (Raised ''ValueError'' True ''Expected IDs to be unique'')\<rparr>)
   \<and> fst (add_knowledge stub_collaborators ''The sky is blue.''
        (world0 (stub0\<lparr>uuids := [Inr ''id-1''],
           add_fault := Some (Raised ''ValueError'' True ''Expected IDs to be unique'')\<rparr>))) =
     Inr [(''status'', ''error''), (''message'', ''Expected IDs to be unique'')]"
proof -
  let ?f = "Raised ''ValueError'' True ''Expected IDs to be unique''"
  let ?s0 = "stub0\<lparr>add_fault := Some ?f\<rparr>"
  let ?w = "world0 (stub0\<lparr>uuids := [Inr ''id-1''], add_fault := Some ?f\<rparr>)"
  have h1: "uuid4_str stub_collaborators (ext ?w) = (Inr ''id-1'', ?s0)"
    by (simp add: stub_collaborators_def stub_uuid4_def stub0_def world0_def)
  have h2: "collection_add stub_collaborators [''The sky is blue.''] [''id-1''] ?s0 = (Inl ?f, ?s0)"
    by (simp add: stub_collaborators_def stub_add_def stub0_def)
  have h: "uuid4_str stub_collaborators (ext ?w) = (Inl ?f, ?s0)
         \<or> (uuid4_str stub_collaborators (ext ?w) = (Inr ''id-1'', ?s0) \<and>
            collection_add stub_collaborators [''The sky is blue.''] [''id-1''] ?s0 = (Inl ?f, ?s0))"
    using h1 h2 by blast
  show ?thesis
    using h1 h2 add_knowledge_catches_Exception [OF h] by simp
qed

subsection \<open>Add: a fault of the identifier step\<close>

text \<open>
  Claim C10. The identifier step is \<open>import uuid\<close> and \<open>str(uuid.uuid4())\<close>; what it can
  raise (a failing import, a failing read of the system's random source, exhausted
  memory) is an instance of \<open>Exception\<close>. When it raises such a fault the handler stops
  there and returns the error envelope with the fault's description: the only event it
  adds is the identifier call, so \<open>collection.add\<close> is never called, the collaborator
  state is the one the identifier step left, and any part \<open>kbv\<close> of it that the identifier
  step leaves alone is unchanged.
\<close>

theorem add_knowledge_uuid_fault_skips_insert:
  assumes "uuid4_str c (ext w) = (Inl f, s)"
    and "is_Exception f"
  shows "add_knowledge c text w =
           (Inr [(''status'', ''error''), (''message'', str_e f)],
            w\<lparr>ext := s, trace := trace w @ [Uuid4]\<rparr>)
       \<and> filter is_add (trace (snd (add_knowledge c text w))) = filter is_add (trace w)
       \<and> (kbv s = kbv (ext w) \<longrightarrow> kbv (ext (snd (add_knowledge c text w))) = kbv (ext w))"
proof -
  have run: "add_knowledge c text w =
      (Inr [(''status'', ''error''), (''message'', str_e f)],
       w\<lparr>ext := s, trace := trace w @ [Uuid4]\<rparr>)"
    using assms(2) by (simp add: add_knowledge_when_uuid_raises [OF assms(1)])
  have no_add: "filter is_add (trace (snd (add_knowledge c text w))) = filter is_add (trace w)"
    unfolding run by simp
  have frame: "kbv s = kbv (ext w) \<longrightarrow> kbv (ext (snd (add_knowledge c text w))) = kbv (ext w)"
    unfolding run by simp
  show ?thesis
    using run no_add frame by (intro conjI)
qed

theorem add_knowledge_uuid_fault_skips_insert_witness:
  "uuid4_str stub_collaborators
     (ext (world0 (stub0\<lparr>kb := [(''id-0'', ''Grass is green.'')],
        uuids := [Inl (Raised ''OSError'' True ''urandom failed'')]\<rparr>))) =
     (Inl (Raised ''OSError'' True ''urandom failed''), stub0\<lparr>kb := [(''id-0'', ''Grass is green.'')]\<rparr>)
   \<and> add_knowledge stub_collaborators ''The sky is blue.''
       (world0 (stub0\<lparr>kb := [(''id-0'', ''Grass is green.'')],
          uuids := [Inl (Raised ''OSError'' True ''urandom failed'')]\<rparr>)) =
     (Inr [(''status'', ''error''), (''message'', ''urandom failed'')],
      \<lparr>ext = stub0\<lparr>kb := [(''id-0'', ''Grass is green.'')]\<rparr>, trace = [Uuid4]\<rparr>)
   \<and> kb (ext (snd (add_knowledge stub_collaborators ''The sky is blue.''
       (world0 (stub0\<lparr>kb := [(''id-0'', ''Grass is green.'')],
          uuids := [Inl (Raised ''OSError'' True ''urandom failed'')]\<rparr>))))) =
     [(''id-0'', ''Grass is green.'')]"
proof -
  let ?f = "Raised ''OSError'' True ''urandom failed''"
  let ?w = "world0 (stub0\<lparr>kb := [(''id-0'', ''Grass is green.'')], uuids := [Inl ?f]\<rparr>)"
  have h1: "uuid4_str stub_collaborators (ext ?w) =
      (Inl ?f, stub0\<lparr>kb := [(''id-0'', ''Grass is green.'')]\<rparr>)"
    by (simp add: stub_collaborators_def stub_uuid4_def stub0_def world0_def)
  have h2: "is_Exception ?f"
    by simp
  show ?thesis
    using h1 add_knowledge_uuid_fault_skips_insert [OF h1 h2, of "''The sky is blue.''" kb]
    by (simp add: world0_def stub0_def)
qed

subsection \<open>Add: the identifiers of consecutive calls\<close>



subsection \<open>Add, then query\<close>




end
